theory Spec2Isabelle
  imports Complex_Main
begin

section \<open>Camera extrinsics (camera\_extrinsics.h)\<close>

text \<open>
  The class \<open>CameraExtrinsics\<close> of \<^verbatim>\<open>utils/camera/camera_extrinsics.h\<close> holds one
  rigid transform, \<^verbatim>\<open>world_to_camera_\<close>, and offers mutators that move the camera centre
  \<open>c = -R' t\<close> rather than the raw translation \<open>t\<close>.

  This development covers the constructor, the observers and the two point conversions:
  what the default pose is, what \<open>Rt\<close> returns, what happens on a null output pointer,
  and that no observer writes to the object.

  Scalars: the source computes in \<^verbatim>\<open>double\<close>; here a scalar is a \<^typ>\<open>real\<close>. The
  results below say which stored values are returned, where they are written and which
  cells are left alone. They do not equate the outcomes of different rounded
  computations. The laws of the specification that do so (the centre kept by a rotation,
  the centre set or moved by a translation, the round trip through the camera frame, the
  quarter turn from Euler angles) depend on IEEE rounding and overflow and are not stated
  in this theory.
\<close>

subsection \<open>Eigen's fixed-size vectors and matrices\<close>

text \<open>
  \<open>Vector3d\<close> is a column of three scalars, \<open>Matrix3d\<close> a 3x3 matrix given row by row,
  \<open>Matrix34d\<close> a 3x4 matrix given row by row, \<open>Vector4d\<close> a column of four scalars.
\<close>

datatype Vector3d = Vector3d (v0: real) (v1: real) (v2: real)

datatype Matrix3d =
  Matrix3d (m00: real) (m01: real) (m02: real)
           (m10: real) (m11: real) (m12: real)
           (m20: real) (m21: real) (m22: real)

datatype Vector4d = Vector4d real real real real

datatype Matrix34d =
  Matrix34d real real real real
            real real real real
            real real real real

text \<open>Unary minus, sum, transpose and the matrix-vector product, entry by entry.\<close>

fun vec_neg :: "Vector3d \<Rightarrow> Vector3d" where
  "vec_neg (Vector3d x y z) = Vector3d (- x) (- y) (- z)"

fun vec_add :: "Vector3d \<Rightarrow> Vector3d \<Rightarrow> Vector3d" where
  "vec_add (Vector3d x y z) (Vector3d x' y' z') = Vector3d (x + x') (y + y') (z + z')"

fun mat_neg :: "Matrix3d \<Rightarrow> Matrix3d" where
  "mat_neg (Matrix3d a b c d e f g h i) =
     Matrix3d (- a) (- b) (- c) (- d) (- e) (- f) (- g) (- h) (- i)"

fun mat_transpose :: "Matrix3d \<Rightarrow> Matrix3d" where
  "mat_transpose (Matrix3d a b c d e f g h i) = Matrix3d a d g b e h c f i"

fun mat_vec :: "Matrix3d \<Rightarrow> Vector3d \<Rightarrow> Vector3d" where
  "mat_vec (Matrix3d a b c d e f g h i) (Vector3d x y z) =
     Vector3d (a * x + b * y + c * z) (d * x + e * y + f * z) (g * x + h * y + i * z)"

definition Identity3 :: Matrix3d where
  "Identity3 = Matrix3d 1 0 0  0 1 0  0 0 1"

definition Zero3 :: Vector3d where
  "Zero3 = Vector3d 0 0 0"

subsection \<open>The rigid transform primitive\<close>

text \<open>
  The header includes \<^verbatim>\<open>utils/math/transform_3d.h\<close> and uses its class
  \<open>Transform3D\<close>. The class and the members that the constructor and the observers
  call are modelled from
  the specification's description of the collaborator.
\<close>

text \<open>Modelled from the spec: the class \<open>Transform3D\<close>, "stores a rotation matrix and
  translation vector".\<close>

record Transform3D =
  T_rotation :: Matrix3d
  T_translation :: Vector3d

text \<open>Modelled from the spec: the default constructor of \<open>Transform3D\<close>, "default
  construction = identity".\<close>

definition Transform3D_default :: Transform3D where
  "Transform3D_default = \<lparr>T_rotation = Identity3, T_translation = Zero3\<rparr>"

text \<open>Modelled from the spec: \<open>Transform3D::GetRotation\<close>, "GetRotation() -> matrix".\<close>

definition GetRotation :: "Transform3D \<Rightarrow> Matrix3d" where
  "GetRotation T = T_rotation T"

text \<open>Modelled from the spec: \<open>Transform3D::GetTranslation\<close>, "GetTranslation() -> vector".\<close>

definition GetTranslation :: "Transform3D \<Rightarrow> Vector3d" where
  "GetTranslation T = T_translation T"

text \<open>Modelled from the spec: \<open>Transform3D::operator*\<close> on a point, "applying it to a
  point expressed in world coordinates yields that point expressed in camera coordinates:
  p\_camera = R p\_world + t".\<close>

definition Transform3D_apply :: "Transform3D \<Rightarrow> Vector3d \<Rightarrow> Vector3d" where
  "Transform3D_apply T p = vec_add (mat_vec (T_rotation T) p) (T_translation T)"

text \<open>Modelled from the spec: \<open>Transform3D::Inverse\<close>, the "closed-form rigid inverse:
  rotation -> R', translation -> -R' t".\<close>

definition Inverse :: "Transform3D \<Rightarrow> Transform3D" where
  "Inverse T =
     \<lparr>T_rotation = mat_transpose (T_rotation T),
      T_translation = vec_neg (mat_vec (mat_transpose (T_rotation T)) (T_translation T))\<rparr>"

text \<open>Modelled from the spec: \<open>Transform3D::Dehomogenize\<close>, "the augmented [R | t] matrix
  (the raw affine reduction of the stored transform)".\<close>

fun augment :: "Matrix3d \<Rightarrow> Vector3d \<Rightarrow> Matrix34d" where
  "augment (Matrix3d a b c d e f g h i) (Vector3d x y z) =
     Matrix34d a b c x
               d e f y
               g h i z"

definition Dehomogenize :: "Transform3D \<Rightarrow> Matrix34d" where
  "Dehomogenize T = augment (T_rotation T) (T_translation T)"

subsection \<open>The class CameraExtrinsics\<close>

text \<open>The private member \<^verbatim>\<open>world_to_camera_\<close> (line 120) is the field \<open>world_to_camera\<close>.\<close>

record CameraExtrinsics =
  world_to_camera :: Transform3D

text \<open>Lines 127-129: the default constructor.\<close>

definition CameraExtrinsics_default :: CameraExtrinsics where
  "CameraExtrinsics_default = \<lparr>world_to_camera = Transform3D_default\<rparr>"

text \<open>Lines 141-147: the two pose accessors.\<close>

definition WorldToCamera :: "CameraExtrinsics \<Rightarrow> Transform3D" where
  "WorldToCamera P = world_to_camera P"

definition CameraToWorld :: "CameraExtrinsics \<Rightarrow> Transform3D" where
  "CameraToWorld P = Inverse (world_to_camera P)"

text \<open>Lines 176-178.\<close>

definition Rotation :: "CameraExtrinsics \<Rightarrow> Matrix3d" where
  "Rotation P = GetRotation (world_to_camera P)"

text \<open>
  Lines 214-218: the accessor returns the camera centre, not the stored \<open>t\<close>. In
  \<^verbatim>\<open>-R.transpose() * t\<close> the unary minus binds tighter than the product, so the
  transposed matrix is negated before it is applied.
\<close>

definition Translation :: "CameraExtrinsics \<Rightarrow> Vector3d" where
  "Translation P =
     (let t = GetTranslation (world_to_camera P);
          R = GetRotation (world_to_camera P)
      in mat_vec (mat_neg (mat_transpose R)) t)"

text \<open>Lines 221-223.\<close>

definition Rt :: "CameraExtrinsics \<Rightarrow> Matrix34d" where
  "Rt P = Dehomogenize (world_to_camera P)"

subsection \<open>The 3x4 matrix\<close>

text \<open>The left 3x3 block, the last column, and the product with a homogeneous point.\<close>

fun leftCols3 :: "Matrix34d \<Rightarrow> Matrix3d" where
  "leftCols3 (Matrix34d a b c x  d e f y  g h i z) = Matrix3d a b c  d e f  g h i"

fun col3 :: "Matrix34d \<Rightarrow> Vector3d" where
  "col3 (Matrix34d a b c x  d e f y  g h i z) = Vector3d x y z"

fun mat34_vec4 :: "Matrix34d \<Rightarrow> Vector4d \<Rightarrow> Vector3d" where
  "mat34_vec4 (Matrix34d a b c x  d e f y  g h i z) (Vector4d p q r s) =
     Vector3d (a * p + b * q + c * r + x * s)
              (d * p + e * q + f * r + y * s)
              (g * p + h * q + i * r + z * s)"

subsection \<open>The point conversions and their output pointers\<close>

text \<open>
  A \<^verbatim>\<open>double*\<close> is null or the address of a scalar; the memory the outputs live in maps
  addresses to scalars. \<^verbatim>\<open>CHECK_NOTNULL(p)\<close> is glog's check: on a null pointer it logs
  a fatal message naming the expression and aborts the process, otherwise it yields the
  pointer. The abort is the error value \<open>CheckNotNull\<close>, carrying the name.
\<close>

datatype ptr = Null | Ptr nat

type_synonym memory = "nat \<Rightarrow> real"

datatype fatal = CheckNotNull string

definition CHECK_NOTNULL :: "string \<Rightarrow> ptr \<Rightarrow> fatal + nat" where
  "CHECK_NOTNULL name p = (case p of Null \<Rightarrow> Inl (CheckNotNull name) | Ptr a \<Rightarrow> Inr a)"

text \<open>Lines 226-238. The three stores happen in the order written.\<close>

definition WorldToCamera_point ::
  "CameraExtrinsics \<Rightarrow> real \<Rightarrow> real \<Rightarrow> real \<Rightarrow> ptr \<Rightarrow> ptr \<Rightarrow> ptr \<Rightarrow> memory \<Rightarrow> fatal + memory" where
  "WorldToCamera_point P wx wy wz cx cy cz mem =
     (case CHECK_NOTNULL ''cx'' cx of Inl e \<Rightarrow> Inl e | Inr ax \<Rightarrow>
       (case CHECK_NOTNULL ''cy'' cy of Inl e \<Rightarrow> Inl e | Inr ay \<Rightarrow>
         (case CHECK_NOTNULL ''cz'' cz of Inl e \<Rightarrow> Inl e | Inr az \<Rightarrow>
           (let w = Vector3d wx wy wz;
                c = Transform3D_apply (world_to_camera P) w
            in Inr (mem(ax := v0 c, ay := v1 c, az := v2 c))))))"

text \<open>Lines 241-253.\<close>

definition CameraToWorld_point ::
  "CameraExtrinsics \<Rightarrow> real \<Rightarrow> real \<Rightarrow> real \<Rightarrow> ptr \<Rightarrow> ptr \<Rightarrow> ptr \<Rightarrow> memory \<Rightarrow> fatal + memory" where
  "CameraToWorld_point P cx cy cz wx wy wz mem =
     (case CHECK_NOTNULL ''wx'' wx of Inl e \<Rightarrow> Inl e | Inr ax \<Rightarrow>
       (case CHECK_NOTNULL ''wy'' wy of Inl e \<Rightarrow> Inl e | Inr ay \<Rightarrow>
         (case CHECK_NOTNULL ''wz'' wz of Inl e \<Rightarrow> Inl e | Inr az \<Rightarrow>
           (let c = Vector3d cx cy cz;
                w = Transform3D_apply (CameraToWorld P) c
            in Inr (mem(ax := v0 w, ay := v1 w, az := v2 w))))))"

subsection \<open>The object in memory and calls of the const member functions\<close>

text \<open>
  The output pointers of a point conversion may point anywhere, also into the object the
  member function is called on. So the object lives in the same memory as the outputs:
  the twelve scalars of \<^verbatim>\<open>world_to_camera_\<close> (nine of the rotation, row by row, then three
  of the translation) are the cells \<open>obj 0\<close>, ..., \<open>obj 11\<close>. Nothing is assumed of the
  map \<open>obj\<close> from a scalar's index to its address: the class declaration that fixes the
  layout is not in the header.
\<close>

type_synonym layout = "nat \<Rightarrow> nat"

definition load :: "layout \<Rightarrow> memory \<Rightarrow> CameraExtrinsics" where
  "load obj mem =
     \<lparr>world_to_camera =
        \<lparr>T_rotation =
           Matrix3d (mem (obj 0)) (mem (obj 1)) (mem (obj 2))
                    (mem (obj 3)) (mem (obj 4)) (mem (obj 5))
                    (mem (obj 6)) (mem (obj 7)) (mem (obj 8)),
         T_translation = Vector3d (mem (obj 9)) (mem (obj 10)) (mem (obj 11))\<rparr>\<rparr>"

definition footprint :: "layout \<Rightarrow> nat set" where
  "footprint obj = obj ` {0..<12}"

text \<open>
  A call of an observer runs on the object at \<open>obj\<close> in a memory and gives back a value
  and the memory after the call, or aborts. The bodies of \<open>WorldToCamera\<close>,
  \<open>CameraToWorld\<close>, \<open>Rotation\<close>, \<open>Translation\<close> and \<open>Rt\<close> (lines 141-147, 176-178,
  214-223) read the member and return a value; they contain no store. The two point
  conversions (lines 226-253) read the member once, into the local \<^verbatim>\<open>c\<close> or \<^verbatim>\<open>w\<close>,
  before the first of their three stores through the output pointers. The members of
  \<open>Transform3D\<close> they call are called on a const object and are modelled as reads.
\<close>

datatype observer =
  Call_WorldToCamera
| Call_CameraToWorld
| Call_Rotation
| Call_Translation
| Call_Rt
| Call_WorldToCamera_point real real real ptr ptr ptr
| Call_CameraToWorld_point real real real ptr ptr ptr

datatype returned =
  Ret_Transform3D Transform3D
| Ret_Matrix3d Matrix3d
| Ret_Vector3d Vector3d
| Ret_Matrix34d Matrix34d
| Ret_void

fun call :: "observer \<Rightarrow> layout \<Rightarrow> memory \<Rightarrow> fatal + (returned \<times> memory)" where
  "call Call_WorldToCamera obj mem = Inr (Ret_Transform3D (WorldToCamera (load obj mem)), mem)"
| "call Call_CameraToWorld obj mem = Inr (Ret_Transform3D (CameraToWorld (load obj mem)), mem)"
| "call Call_Rotation obj mem = Inr (Ret_Matrix3d (Rotation (load obj mem)), mem)"
| "call Call_Translation obj mem = Inr (Ret_Vector3d (Translation (load obj mem)), mem)"
| "call Call_Rt obj mem = Inr (Ret_Matrix34d (Rt (load obj mem)), mem)"
| "call (Call_WorldToCamera_point wx wy wz cx cy cz) obj mem =
     (case WorldToCamera_point (load obj mem) wx wy wz cx cy cz mem of
        Inl e \<Rightarrow> Inl e
      | Inr mem' \<Rightarrow> Inr (Ret_void, mem'))"
| "call (Call_CameraToWorld_point cx cy cz wx wy wz) obj mem =
     (case CameraToWorld_point (load obj mem) cx cy cz wx wy wz mem of
        Inl e \<Rightarrow> Inl e
      | Inr mem' \<Rightarrow> Inr (Ret_void, mem'))"

text \<open>
  An output pointer is valid for a call on the object at \<open>obj\<close> when it is not null and
  does not point at one of the object's own scalars. The five observers without output
  pointers have no output to get wrong.
\<close>

fun valid_output :: "layout \<Rightarrow> ptr \<Rightarrow> bool" where
  "valid_output obj Null = False"
| "valid_output obj (Ptr a) = (a \<notin> footprint obj)"

fun valid_outputs :: "layout \<Rightarrow> observer \<Rightarrow> bool" where
  "valid_outputs obj (Call_WorldToCamera_point wx wy wz cx cy cz) =
     (valid_output obj cx \<and> valid_output obj cy \<and> valid_output obj cz)"
| "valid_outputs obj (Call_CameraToWorld_point cx cy cz wx wy wz) =
     (valid_output obj wx \<and> valid_output obj wy \<and> valid_output obj wz)"
| "valid_outputs obj _ = True"

section \<open>The point conversions and the 3x4 matrix\<close>

lemma WorldToCamera_point_Ptr:
  "WorldToCamera_point P wx wy wz (Ptr a) (Ptr b) (Ptr c) mem =
     Inr (mem(a := v0 (Transform3D_apply (WorldToCamera P) (Vector3d wx wy wz)),
              b := v1 (Transform3D_apply (WorldToCamera P) (Vector3d wx wy wz)),
              c := v2 (Transform3D_apply (WorldToCamera P) (Vector3d wx wy wz))))"
  by (simp add: WorldToCamera_point_def CHECK_NOTNULL_def WorldToCamera_def Let_def)

lemma CameraToWorld_point_Ptr:
  "CameraToWorld_point P cx cy cz (Ptr a) (Ptr b) (Ptr c) mem =
     Inr (mem(a := v0 (Transform3D_apply (CameraToWorld P) (Vector3d cx cy cz)),
              b := v1 (Transform3D_apply (CameraToWorld P) (Vector3d cx cy cz)),
              c := v2 (Transform3D_apply (CameraToWorld P) (Vector3d cx cy cz))))"
  by (simp add: CameraToWorld_point_def CHECK_NOTNULL_def Let_def)

lemma WorldToCamera_point_Null:
  assumes "cx = Null \<or> cy = Null \<or> cz = Null"
  shows "\<exists>n. WorldToCamera_point P wx wy wz cx cy cz mem = Inl (CheckNotNull n)"
  using assms by (auto simp: WorldToCamera_point_def CHECK_NOTNULL_def split: ptr.splits)

lemma CameraToWorld_point_Null:
  assumes "wx = Null \<or> wy = Null \<or> wz = Null"
  shows "\<exists>n. CameraToWorld_point P cx cy cz wx wy wz mem = Inl (CheckNotNull n)"
  using assms by (auto simp: CameraToWorld_point_def CHECK_NOTNULL_def split: ptr.splits)

lemma leftCols3_augment: "leftCols3 (augment R t) = R"
  by (cases R; cases t) simp

lemma col3_augment: "col3 (augment R t) = t"
  by (cases R; cases t) simp

lemma mat34_vec4_augment:
  "mat34_vec4 (augment R t) (Vector4d x y z 1) = vec_add (mat_vec R (Vector3d x y z)) t"
  by (cases R; cases t) simp

section \<open>Stores outside the object\<close>

lemma cell_in_footprint: "i < 12 \<Longrightarrow> obj i \<in> footprint obj"
  by (simp add: footprint_def)

lemma load_update_outside:
  assumes "a \<notin> footprint obj"
  shows "load obj (mem(a := x)) = load obj mem"
proof -
  have "obj i \<noteq> a" if "i < 12" for i
    using assms cell_in_footprint [OF that] by auto
  then show ?thesis
    by (simp add: load_def)
qed

lemma load_three_updates_outside:
  assumes "a \<notin> footprint obj" and "b \<notin> footprint obj" and "c \<notin> footprint obj"
  shows "load obj (mem(a := x, b := y, c := z)) = load obj mem"
  using assms by (simp add: load_update_outside)

lemma valid_output_Ptr:
  assumes "valid_output obj p"
  obtains a where "p = Ptr a" and "a \<notin> footprint obj"
  using assms by (cases p) simp_all

section \<open>The claims of the specification\<close>

text \<open>
  Claim C6. Either point conversion, called with one of its three output pointers null,
  aborts with the fatal check failure: it does not return, so no memory comes back. Called
  with three non-null pointers it does not fail and returns the memory with the three
  coordinates stored at the three addresses.
\<close>

theorem point_conversion_null_output:
  "(cx = Null \<or> cy = Null \<or> cz = Null \<longrightarrow>
      (\<exists>n. WorldToCamera_point P x y z cx cy cz mem = Inl (CheckNotNull n))
    \<and> (\<exists>n. CameraToWorld_point P x y z cx cy cz mem = Inl (CheckNotNull n)))
   \<and> WorldToCamera_point P x y z (Ptr a) (Ptr b) (Ptr c) mem =
       Inr (mem(a := v0 (Transform3D_apply (WorldToCamera P) (Vector3d x y z)),
                b := v1 (Transform3D_apply (WorldToCamera P) (Vector3d x y z)),
                c := v2 (Transform3D_apply (WorldToCamera P) (Vector3d x y z))))
   \<and> CameraToWorld_point P x y z (Ptr a) (Ptr b) (Ptr c) mem =
       Inr (mem(a := v0 (Transform3D_apply (CameraToWorld P) (Vector3d x y z)),
                b := v1 (Transform3D_apply (CameraToWorld P) (Vector3d x y z)),
                c := v2 (Transform3D_apply (CameraToWorld P) (Vector3d x y z))))"
  using WorldToCamera_point_Null [of cx cy cz P x y z mem]
    CameraToWorld_point_Null [of cx cy cz P x y z mem]
  by (simp add: WorldToCamera_point_Ptr CameraToWorld_point_Ptr)

theorem point_conversion_null_output_witness:
  "(\<exists>n. WorldToCamera_point CameraExtrinsics_default 1 2 3 (Ptr 0) Null (Ptr 2) (\<lambda>_. 0)
          = Inl (CheckNotNull n))
   \<and> (\<exists>n. CameraToWorld_point CameraExtrinsics_default 1 2 3 (Ptr 0) Null (Ptr 2) (\<lambda>_. 0)
          = Inl (CheckNotNull n))"
  using point_conversion_null_output [of "Ptr 0" Null "Ptr 2" CameraExtrinsics_default 1 2 3 "\<lambda>_. 0"]
  by simp

text \<open>
  Claim C7. For every pose, \<open>Rt\<close> is the 3x4 matrix \<open>[R | t]\<close> of the stored rotation and
  the stored translation (not the centre): its left three columns are \<open>Rotation\<close>, its
  fourth column is the stored \<open>t\<close>, and its product with the homogeneous world point
  \<open>(wx, wy, wz, 1)\<close> is the camera-frame point that the \<open>WorldToCamera\<close> point conversion
  writes.
\<close>

theorem Rt_is_augmented_matrix:
  "Rt P = augment (Rotation P) (GetTranslation (world_to_camera P))
   \<and> leftCols3 (Rt P) = Rotation P
   \<and> col3 (Rt P) = GetTranslation (world_to_camera P)
   \<and> mat34_vec4 (Rt P) (Vector4d wx wy wz 1)
       = Transform3D_apply (WorldToCamera P) (Vector3d wx wy wz)
   \<and> WorldToCamera_point P wx wy wz (Ptr a) (Ptr b) (Ptr c) mem =
       Inr (mem(a := v0 (mat34_vec4 (Rt P) (Vector4d wx wy wz 1)),
                b := v1 (mat34_vec4 (Rt P) (Vector4d wx wy wz 1)),
                c := v2 (mat34_vec4 (Rt P) (Vector4d wx wy wz 1))))"
proof -
  have rt: "Rt P = augment (Rotation P) (GetTranslation (world_to_camera P))"
    by (simp add: Rt_def Dehomogenize_def Rotation_def GetRotation_def GetTranslation_def)
  have ap: "mat34_vec4 (Rt P) (Vector4d wx wy wz 1)
       = Transform3D_apply (WorldToCamera P) (Vector3d wx wy wz)"
    by (simp add: rt mat34_vec4_augment Transform3D_apply_def WorldToCamera_def Rotation_def
        GetRotation_def GetTranslation_def)
  show ?thesis
    unfolding ap WorldToCamera_point_Ptr
    by (simp add: rt leftCols3_augment col3_augment)
qed

text \<open>
  Claim C9. The default-constructed pose is the identity pose: the stored rotation is the
  identity matrix and the stored translation is zero, \<open>Translation\<close> returns
  \<open>(0, 0, 0)\<close>, \<open>Rotation\<close> returns the identity matrix, \<open>WorldToCamera\<close> and
  \<open>CameraToWorld\<close> both return the identity transform, and both point conversions write
  back the point they are given.
\<close>

theorem default_pose_is_identity:
  "GetRotation (world_to_camera CameraExtrinsics_default) = Matrix3d 1 0 0  0 1 0  0 0 1
   \<and> GetTranslation (world_to_camera CameraExtrinsics_default) = Vector3d 0 0 0
   \<and> Translation CameraExtrinsics_default = Vector3d 0 0 0
   \<and> Rotation CameraExtrinsics_default = Matrix3d 1 0 0  0 1 0  0 0 1
   \<and> WorldToCamera CameraExtrinsics_default = Transform3D_default
   \<and> CameraToWorld CameraExtrinsics_default = Transform3D_default
   \<and> Transform3D_apply Transform3D_default p = p
   \<and> WorldToCamera_point CameraExtrinsics_default x y z (Ptr a) (Ptr b) (Ptr c) mem
       = Inr (mem(a := x, b := y, c := z))
   \<and> CameraToWorld_point CameraExtrinsics_default x y z (Ptr a) (Ptr b) (Ptr c) mem
       = Inr (mem(a := x, b := y, c := z))"
proof -
  have w: "WorldToCamera CameraExtrinsics_default = Transform3D_default"
    by (simp add: WorldToCamera_def CameraExtrinsics_default_def)
  have c: "CameraToWorld CameraExtrinsics_default = Transform3D_default"
    by (simp add: CameraToWorld_def Inverse_def CameraExtrinsics_default_def
        Transform3D_default_def Identity3_def Zero3_def)
  have ap: "Transform3D_apply Transform3D_default q = q" for q
    by (cases q) (simp add: Transform3D_apply_def Transform3D_default_def Identity3_def Zero3_def)
  show ?thesis
    unfolding WorldToCamera_point_Ptr CameraToWorld_point_Ptr w c ap
    by (simp add: Translation_def Rotation_def GetRotation_def GetTranslation_def
        CameraExtrinsics_default_def Transform3D_default_def Identity3_def Zero3_def)
qed

text \<open>
  Claim C10. Every observer (\<open>WorldToCamera\<close>, \<open>CameraToWorld\<close>, \<open>Rotation\<close>,
  \<open>Translation\<close>, \<open>Rt\<close> and the two point conversions) called with valid outputs
  returns and leaves the stored transform unchanged: the twelve scalars of the object,
  and with them the stored rotation, the stored translation and the centre, are the same
  after the call as before. For the point conversions the outputs are valid when they are
  not null and do not point into the object.
\<close>

theorem observers_keep_transform:
  "valid_outputs obj ob \<longrightarrow>
     (\<exists>r mem'. call ob obj mem = Inr (r, mem')
        \<and> load obj mem' = load obj mem
        \<and> (\<forall>i<12. mem' (obj i) = mem (obj i))
        \<and> GetRotation (world_to_camera (load obj mem'))
            = GetRotation (world_to_camera (load obj mem))
        \<and> GetTranslation (world_to_camera (load obj mem'))
            = GetTranslation (world_to_camera (load obj mem))
        \<and> Translation (load obj mem') = Translation (load obj mem))"
proof
  assume valid: "valid_outputs obj ob"
  have frame: "\<exists>r mem'. call ob obj mem = Inr (r, mem')
      \<and> load obj mem' = load obj mem \<and> (\<forall>i<12. mem' (obj i) = mem (obj i))"
  proof (cases ob)
    case (Call_WorldToCamera_point wx wy wz cx cy cz)
    with valid obtain a b c where p: "cx = Ptr a" "cy = Ptr b" "cz = Ptr c"
      and out: "a \<notin> footprint obj" "b \<notin> footprint obj" "c \<notin> footprint obj"
      by (auto elim!: valid_output_Ptr)
    have "obj i \<noteq> a \<and> obj i \<noteq> b \<and> obj i \<noteq> c" if "i < 12" for i
      using out cell_in_footprint [OF that] by auto
    with Call_WorldToCamera_point p out show ?thesis
      by (simp add: WorldToCamera_point_Ptr load_three_updates_outside)
  next
    case (Call_CameraToWorld_point cx cy cz wx wy wz)
    with valid obtain a b c where p: "wx = Ptr a" "wy = Ptr b" "wz = Ptr c"
      and out: "a \<notin> footprint obj" "b \<notin> footprint obj" "c \<notin> footprint obj"
      by (auto elim!: valid_output_Ptr)
    have "obj i \<noteq> a \<and> obj i \<noteq> b \<and> obj i \<noteq> c" if "i < 12" for i
      using out cell_in_footprint [OF that] by auto
    with Call_CameraToWorld_point p out show ?thesis
      by (simp add: CameraToWorld_point_Ptr load_three_updates_outside)
  qed simp_all
  then obtain r mem' where "call ob obj mem = Inr (r, mem')"
    and same: "load obj mem' = load obj mem" and cells: "\<forall>i<12. mem' (obj i) = mem (obj i)"
    by blast
  then show "\<exists>r mem'. call ob obj mem = Inr (r, mem')
        \<and> load obj mem' = load obj mem
        \<and> (\<forall>i<12. mem' (obj i) = mem (obj i))
        \<and> GetRotation (world_to_camera (load obj mem'))
            = GetRotation (world_to_camera (load obj mem))
        \<and> GetTranslation (world_to_camera (load obj mem'))
            = GetTranslation (world_to_camera (load obj mem))
        \<and> Translation (load obj mem') = Translation (load obj mem)"
    by (intro exI [of _ r] exI [of _ mem']) simp
qed

theorem observers_keep_transform_witness:
  "valid_outputs (\<lambda>i. 100 + i) (Call_WorldToCamera_point 7 8 9 (Ptr 0) (Ptr 1) (Ptr 2))
   \<and> (\<exists>r mem'.
         call (Call_WorldToCamera_point 7 8 9 (Ptr 0) (Ptr 1) (Ptr 2)) (\<lambda>i. 100 + i)
              ((\<lambda>_. 0)(101 := - 1, 103 := 1, 108 := 1, 109 := 1, 110 := 2, 111 := 3))
           = Inr (r, mem')
       \<and> load (\<lambda>i. 100 + i) mem'
           = load (\<lambda>i. 100 + i)
               ((\<lambda>_. 0)(101 := - 1, 103 := 1, 108 := 1, 109 := 1, 110 := 2, 111 := 3)))"
proof -
  let ?obj = "\<lambda>i::nat. 100 + i"
  let ?ob = "Call_WorldToCamera_point 7 8 9 (Ptr 0) (Ptr 1) (Ptr 2)"
  let ?mem = "(\<lambda>_::nat. 0::real)(101 := - 1, 103 := 1, 108 := 1, 109 := 1, 110 := 2, 111 := 3)"
  have v: "valid_outputs ?obj ?ob"
    by (auto simp: footprint_def)
  from observers_keep_transform [of ?obj ?ob ?mem] v
  have "\<exists>r mem'. call ?ob ?obj ?mem = Inr (r, mem') \<and> load ?obj mem' = load ?obj ?mem"
    by blast
  with v show ?thesis
    by (intro conjI)
qed

section \<open>An output pointer into the object\<close>

text \<open>
  The condition on the outputs is needed. A point conversion whose first output points
  at the first scalar of the stored translation returns, and the stored translation is
  then the converted point's first coordinate instead of what it was: on the identity
  pose laid out from address 100, converting the world point \<open>(7, 8, 9)\<close> with
  \<^verbatim>\<open>cx\<close> at address 109 leaves the stored translation \<open>(7, 0, 0)\<close>.
\<close>

lemma output_into_object_overwrites:
  "call (Call_WorldToCamera_point 7 8 9 (Ptr 109) (Ptr 1) (Ptr 2)) (\<lambda>i. 100 + i)
        ((\<lambda>_. 0)(100 := 1, 104 := 1, 108 := 1))
     = Inr (Ret_void, (\<lambda>_. 0)(100 := 1, 104 := 1, 108 := 1, 109 := 7, 1 := 8, 2 := 9))
   \<and> GetTranslation (world_to_camera (load (\<lambda>i. 100 + i)
        ((\<lambda>_. 0)(100 := 1, 104 := 1, 108 := 1)))) = Vector3d 0 0 0
   \<and> GetTranslation (world_to_camera (load (\<lambda>i. 100 + i)
        ((\<lambda>_. 0)(100 := 1, 104 := 1, 108 := 1, 109 := 7, 1 := 8, 2 := 9)))) = Vector3d 7 0 0"
  by (simp add: WorldToCamera_point_Ptr load_def WorldToCamera_def Transform3D_apply_def
      GetTranslation_def)

end
